theory Spec2Isabelle
  imports Main
begin

section \<open>Go values used by the tunnel package\<close>

text \<open>
  A Go \<open>error\<close> built by \<open>errors.New\<close> or \<open>fmt.Errorf\<close> is its message. A function
  returning \<open>(v, error)\<close> is a sum: \<open>Inl\<close> the error, \<open>Inr\<close> the value.
\<close>

datatype error = Error string

fun errorMsg :: "error \<Rightarrow> string" where
  "errorMsg (Error m) = m"

subsection \<open>\<open>strings.Index\<close> and \<open>strings.Split\<close>\<close>

text \<open>
  \<open>strings.Index(s, sep)\<close>: the position of the first occurrence of \<open>sep\<close> in \<open>s\<close>,
  \<open>None\<close> for Go's \<open>-1\<close>.
\<close>

fun isPrefix :: "string \<Rightarrow> string \<Rightarrow> bool" where
  "isPrefix [] s = True"
| "isPrefix (p # ps) [] = False"
| "isPrefix (p # ps) (c # cs) = (p = c \<and> isPrefix ps cs)"

fun Index :: "string \<Rightarrow> string \<Rightarrow> nat option" where
  "Index [] sep = (if sep = [] then Some 0 else None)"
| "Index (c # cs) sep =
     (if isPrefix sep (c # cs) then Some 0
      else (case Index cs sep of None \<Rightarrow> None | Some m \<Rightarrow> Some (Suc m)))"

text \<open>
  \<open>strings.Split(s, sep)\<close> for a non-empty separator, as the library's loop
  \<open>m := Index(s, sep); a[i] = s[:m]; s = s[m+len(sep):]\<close> with the rest of \<open>s\<close>
  as the last element. The package only calls it with \<open>"://"\<close> and \<open>":"\<close>; for an empty
  separator (where Go splits into characters) the model returns the string whole.
\<close>

function Split :: "string \<Rightarrow> string \<Rightarrow> string list" where
  "Split s sep =
     (if sep = [] then [s]
      else (case Index s sep of
              None \<Rightarrow> [s]
            | Some m \<Rightarrow> take m s # Split (drop (m + length sep) s) sep))"
  by pat_completeness auto

termination Split
proof (relation "measure (\<lambda>(s, sep). length s)")
  show "wf (measure (\<lambda>(s, sep). length s))" by simp
next
  fix s sep :: string and m :: nat
  assume sep: "sep \<noteq> []" and idx: "Index s sep = Some m"
  have "s \<noteq> []"
  proof
    assume "s = []"
    with idx sep show False by simp
  qed
  with sep show "((drop (m + length sep) s, sep), (s, sep)) \<in> measure (\<lambda>(s, sep). length s)"
    by (cases s; cases sep) auto
qed

declare Split.simps [simp del]

subsection \<open>\<open>strconv.Atoi\<close> and \<open>fmt.Sprintf("%d")\<close>\<close>

text \<open>
  \<open>strconv.Atoi\<close> on a 64-bit platform: an optional sign, then one or more decimal
  digits and nothing else; a value outside the range of \<open>int\<close> is an error too.
\<close>

definition isDigit :: "char \<Rightarrow> bool" where
  "isDigit c = (48 \<le> (of_char c :: nat) \<and> (of_char c :: nat) \<le> 57)"

definition digitVal :: "char \<Rightarrow> nat" where
  "digitVal c = of_char c - 48"

fun parseDigits :: "nat \<Rightarrow> string \<Rightarrow> nat option" where
  "parseDigits n [] = Some n"
| "parseDigits n (c # cs) =
     (if isDigit c then parseDigits (n * 10 + digitVal c) cs else None)"

definition Atoi :: "string \<Rightarrow> error + int" where
  "Atoi s =
     (let neg = (s \<noteq> [] \<and> hd s = CHR ''-'');
          body = (if s \<noteq> [] \<and> (hd s = CHR ''-'' \<or> hd s = CHR ''+'') then tl s else s)
      in if body = [] then Inl (Error (''strconv.Atoi: parsing '' @ s @ '': invalid syntax''))
         else (case parseDigits 0 body of
                 None \<Rightarrow> Inl (Error (''strconv.Atoi: parsing '' @ s @ '': invalid syntax''))
               | Some n \<Rightarrow>
                   (let v = (if neg then - int n else int n)
                    in if v < - (2 ^ 63) \<or> 2 ^ 63 - 1 < v
                       then Inl (Error (''strconv.Atoi: parsing '' @ s @ '': value out of range''))
                       else Inr v)))"

text \<open>\<open>fmt.Sprintf("%d", n)\<close>: the decimal digits of \<open>n\<close>, with a minus sign when negative.\<close>

definition digitChar :: "nat \<Rightarrow> char" where
  "digitChar d = ''0123456789'' ! (d mod 10)"

function natToDec :: "nat \<Rightarrow> string" where
  "natToDec n = (if n < 10 then [digitChar n] else natToDec (n div 10) @ [digitChar (n mod 10)])"
  by pat_completeness auto
termination
  by (relation "measure id") auto

declare natToDec.simps [simp del]

definition Sprintf_d :: "int \<Rightarrow> string" where
  "Sprintf_d n = (if n < 0 then CHR ''-'' # natToDec (nat (- n)) else natToDec (nat n))"

section \<open>tunnel.go\<close>

record TunnelConfig =
  Protocol :: string
  TunnelEndpoint :: string
  Username :: string
  Password :: string
  RemoteAddr :: string
  RemotePort :: int
  TunneledProtocol :: string

text \<open>The table \<open>defaultProtocolPorts\<close>.\<close>

definition defaultProtocolPorts :: "string \<rightharpoonup> string" where
  "defaultProtocolPorts = [''http'' \<mapsto> ''80'', ''https'' \<mapsto> ''443'']"

text \<open>
  \<open>getTunneledProtocolAndRemoteAddr\<close>. \<open>Split\<close> never returns an empty slice, so
  \<open>protocolSplit[0]\<close> exists; \<open>protocolSplit[1]\<close> is read only when the length is not 1.
\<close>

definition getTunneledProtocolAndRemoteAddr :: "string \<Rightarrow> string \<times> string" where
  "getTunneledProtocolAndRemoteAddr remoteAddr =
     (let protocolSplit = Split remoteAddr ''://''
      in if length protocolSplit = 1 then (''http'', protocolSplit ! 0)
         else (protocolSplit ! 0, protocolSplit ! 1))"

definition splitAddrAndPort :: "string \<Rightarrow> string \<Rightarrow> error + (string \<times> int)" where
  "splitAddrAndPort addrAndPort protocol =
     (let addrPortSplit = Split addrAndPort '':'';
          addr = addrPortSplit ! 0;
          portStrR = (if length addrPortSplit = 1
                      then (case defaultProtocolPorts protocol of
                              Some defaultPort \<Rightarrow> Inr defaultPort
                            | None \<Rightarrow> Inl (Error (''could not get default port for protocol '' @ protocol)))
                      else Inr (addrPortSplit ! 1))
      in case portStrR of
           Inl e \<Rightarrow> Inl e
         | Inr portStr \<Rightarrow>
             if length addr = 0 then Inl (Error ''empty address/hostname provided.'')
             else if length portStr = 0 then Inl (Error ''empty port provided.'')
             else (case Atoi portStr of
                     Inl e \<Rightarrow> Inl (Error (''invalid endpoint provided: '' @ addrAndPort))
                   | Inr portNum \<Rightarrow> Inr (addr, portNum)))"

definition BuildTunnelConfig ::
  "string \<Rightarrow> string \<Rightarrow> string \<Rightarrow> string \<Rightarrow> string \<Rightarrow> error + TunnelConfig" where
  "BuildTunnelConfig protocol tunnelEndpoint destEndpoint user password =
     (case getTunneledProtocolAndRemoteAddr destEndpoint of
        (tunneledProtocol, remoteEndpoint) \<Rightarrow>
          (case splitAddrAndPort remoteEndpoint tunneledProtocol of
             Inl err \<Rightarrow> Inl err
           | Inr (remoteAddr, remotePort) \<Rightarrow>
               Inr \<lparr> Protocol = protocol, TunnelEndpoint = tunnelEndpoint,
                     Username = user, Password = password,
                     RemoteAddr = remoteAddr, RemotePort = remotePort,
                     TunneledProtocol = tunneledProtocol \<rparr>))"

definition getEndpointInfo :: "string \<Rightarrow> error + (string \<times> string \<times> string)" where
  "getEndpointInfo endpointAddr =
     (let protocolSplit = Split endpointAddr ''://'';
          addrAndPort = (if length protocolSplit = 1 then protocolSplit ! 0 else protocolSplit ! 1);
          protocol = (if length protocolSplit = 1 then [] else protocolSplit ! 0);
          addrPortSplit = Split addrAndPort '':'';
          addr = addrPortSplit ! 0;
          portR = (if length addrPortSplit = 1
                   then (case defaultProtocolPorts protocol of
                           Some defaultPort \<Rightarrow> Inr defaultPort
                         | None \<Rightarrow> Inl (Error (''could not get default port for protocol '' @ protocol)))
                   else Inr (addrPortSplit ! 1))
      in case portR of
           Inl e \<Rightarrow> Inl e
         | Inr port \<Rightarrow>
             if length addr = 0 then Inl (Error ''empty address/hostname provided.'')
             else if length port = 0 then Inl (Error ''empty port provided.'')
             else Inr (protocol, addr, port))"

section \<open>The SSH tunnel (the engine)\<close>

subsection \<open>Sockets, sessions and what the outside can observe\<close>

text \<open>
  A \<open>net.Conn\<close>, an \<open>*ssh.Client\<close> and a \<open>net.Listener\<close> are handles. The world
  records which handles have been closed and, in order, every effect the engine has on
  its surroundings: log lines, sends on the readiness channel, dials, closes, the tasks
  it starts with \<open>go\<close>, and the writes to the two flags that other tasks read.
\<close>

type_synonym conn = nat

datatype event =
    LogInfo string
  | ChanSend bool
  | NetListen string
  | SshDial string
  | ClientDial conn string
  | ConnClose conn
  | GoForwardConnection conn
  | GoForwarder conn conn
  | SetWillClose bool
  | SetIsClosed bool

record world =
  closed :: "conn set"
  trace :: "event list"

definition emit :: "event \<Rightarrow> world \<Rightarrow> world" where
  "emit e w = w\<lparr>trace := trace w @ [e]\<rparr>"

definition logInfo :: "string \<Rightarrow> world \<Rightarrow> world" where
  "logInfo m w = emit (LogInfo m) w"

text \<open>
  \<open>Close()\<close> on a handle. Closing a handle that is already closed returns an error
  value and does nothing else; it does not panic.
\<close>

definition Close :: "conn \<Rightarrow> world \<Rightarrow> error option \<times> world" where
  "Close c w =
     (if c \<in> closed w then Some (Error ''use of closed network connection'') else None,
      emit (ConnClose c) (w\<lparr>closed := insert c (closed w)\<rparr>))"

subsection \<open>The engine's state and its construction\<close>

definition minLocalPort :: int where
  "minLocalPort = 50000"

definition maxLocalPort :: int where
  "maxLocalPort = 65000"

record ClientConfig =
  User :: string
  AuthPassword :: string
  InsecureIgnoreHostKey :: bool

record SshTunnel =
  name :: string
  sshUsername :: string
  sshPassword :: string
  tunneledProtocol :: string
  localTunnelEndpoint :: string
  serverTunnelEndpoint :: string
  remoteEndpoint :: string
  config :: ClientConfig
  localConns :: "conn list"
  sshConns :: "conn list"
  remoteConns :: "conn list"
  willClose :: bool
  isClosed :: bool

text \<open>
  \<open>getRandomListeningPort\<close>. The random source is a parameter: \<open>intn n\<close> is what
  \<open>rand.Intn(n)\<close> returns, which the library promises to lie in \<open>[0, n)\<close> for \<open>n > 0\<close>.
\<close>

definition getRandomListeningPort :: "(int \<Rightarrow> int) \<Rightarrow> int" where
  "getRandomListeningPort intn = intn (maxLocalPort - minLocalPort) + minLocalPort"

definition getRelativeRemoteAddr :: "string \<Rightarrow> string \<Rightarrow> string" where
  "getRelativeRemoteAddr sshServerAddr remoteAddr =
     (if sshServerAddr = remoteAddr then ''localhost'' else remoteAddr)"

definition getSSHServerAddrAndPort :: "TunnelConfig \<Rightarrow> error + (string \<times> int)" where
  "getSSHServerAddrAndPort tunnelConfig =
     (let sshEndpoint = TunnelEndpoint tunnelConfig
      in case Atoi sshEndpoint of
           Inr portNum \<Rightarrow> Inr (RemoteAddr tunnelConfig, portNum)
         | Inl err \<Rightarrow> splitAddrAndPort sshEndpoint (TunneledProtocol tunnelConfig))"

definition SshTunnelFactory :: "(int \<Rightarrow> int) \<Rightarrow> TunnelConfig \<Rightarrow> error + SshTunnel" where
  "SshTunnelFactory intn tunnelConfig =
     (let clientConfig = \<lparr> User = Username tunnelConfig,
                            AuthPassword = Password tunnelConfig,
                            InsecureIgnoreHostKey = True \<rparr>
      in case getSSHServerAddrAndPort tunnelConfig of
           Inl err \<Rightarrow> Inl err
         | Inr (sshServerAddr, sshPort) \<Rightarrow>
             (let localPortNum = getRandomListeningPort intn;
                  relativeRemoteAddr = getRelativeRemoteAddr sshServerAddr (RemoteAddr tunnelConfig)
              in Inr \<lparr> name = Protocol tunnelConfig,
                       sshUsername = Username tunnelConfig,
                       sshPassword = Password tunnelConfig,
                       tunneledProtocol = TunneledProtocol tunnelConfig,
                       localTunnelEndpoint = ''localhost:'' @ Sprintf_d localPortNum,
                       serverTunnelEndpoint = sshServerAddr @ '':'' @ Sprintf_d sshPort,
                       remoteEndpoint = relativeRemoteAddr @ '':'' @ Sprintf_d (RemotePort tunnelConfig),
                       config = clientConfig,
                       localConns = [], sshConns = [], remoteConns = [],
                       willClose = False, isClosed = False \<rparr>))"

text \<open>The registry \<open>CommunicationTunnelFactories\<close> after the package's \<open>init\<close>.\<close>

definition CommunicationTunnelFactories ::
  "(int \<Rightarrow> int) \<Rightarrow> string \<rightharpoonup> (TunnelConfig \<Rightarrow> error + SshTunnel)" where
  "CommunicationTunnelFactories intn = [''SSH'' \<mapsto> SshTunnelFactory intn]"

definition GetName :: "SshTunnel \<Rightarrow> string" where
  "GetName s = name s"

definition GetLocalEndpoint :: "SshTunnel \<Rightarrow> string" where
  "GetLocalEndpoint s = tunneledProtocol s @ ''://'' @ localTunnelEndpoint s"

definition GetRemoteEndpoint :: "SshTunnel \<Rightarrow> string" where
  "GetRemoteEndpoint s = tunneledProtocol s @ ''://'' @ remoteEndpoint s"

subsection \<open>Start and the accept loop\<close>

text \<open>
  The accept loop has no exit. The model runs it over the outcomes of the first calls of
  \<open>listener.Accept()\<close> (an error or the accepted socket) and stops where the loop waits
  for the next one: \<open>Blocked\<close>. \<open>Returned\<close> is the \<open>return\<close> of \<open>Start\<close>. Since the
  loop never ends, the deferred \<open>listener.Close()\<close> only runs on the early return path,
  which is taken before it is registered.
\<close>

datatype status = Returned | Blocked

fun acceptLoop :: "(error + conn) list \<Rightarrow> SshTunnel \<times> world \<Rightarrow> status \<times> SshTunnel \<times> world" where
  "acceptLoop [] (s, w) = (Blocked, s, logInfo ''[*] Listening on local tunnel endpoint'' w)"
| "acceptLoop (Inl err # rest) (s, w) =
     acceptLoop rest
       (s, logInfo (''[!] Error accepting local SSH tunnel connection: '' @ errorMsg err)
             (logInfo ''[*] Listening on local tunnel endpoint'' w))"
| "acceptLoop (Inr localConn # rest) (s, w) =
     acceptLoop rest
       (s\<lparr>localConns := localConns s @ [localConn]\<rparr>,
        emit (GoForwardConnection localConn)
          (logInfo ''[*] Accepted connection on local SSH tunnel endpoint''
             (logInfo ''[*] Listening on local tunnel endpoint'' w)))"

definition Start ::
  "(error + conn) \<Rightarrow> (error + conn) list \<Rightarrow> SshTunnel \<times> world \<Rightarrow> status \<times> SshTunnel \<times> world" where
  "Start listenRes accepts sw =
     (case sw of (s, w) \<Rightarrow>
        (let w1 = logInfo (''Starting local tunnel endpoint at '' @ localTunnelEndpoint s) w;
             w2 = logInfo (''Setting server tunnel endpoint at '' @ serverTunnelEndpoint s) w1;
             w3 = logInfo (''Setting remote endpoint at '' @ remoteEndpoint s) w2;
             w4 = emit (NetListen (localTunnelEndpoint s)) w3
         in case listenRes of
              Inl err \<Rightarrow>
                (Returned, s,
                 emit (ChanSend False)
                   (logInfo (''[!] Error setting SSH tunnel listener: '' @ errorMsg err) w4))
            | Inr listener \<Rightarrow> acceptLoop accepts (s, emit (ChanSend True) w4)))"

subsection \<open>The forwarding pipeline\<close>

text \<open>
  \<open>forwarderFunc\<close> is a closure over \<open>localConn\<close>, \<open>remoteConn\<close>, \<open>serverConn\<close>, the
  engine and the variable \<open>err\<close> of \<open>forwardConnection\<close>. It stores the result of
  \<open>io.Copy\<close> in that variable with \<open>=\<close> and then tests the variable, and it is started
  twice with \<open>go\<close>: the two copy tasks share one \<open>err\<close>. What they share is the engine,
  the world and \<open>err\<close> (\<open>None\<close> for \<open>nil\<close>).

  A task goes through three steps, each reading or writing \<open>err\<close> once:
  \<^item> \<open>AtCopy\<close>: \<open>io.Copy\<close> returns \<open>copyRes\<close> (\<open>None\<close> at end of stream, \<open>Some e\<close> on an
    I/O error), which is stored in \<open>err\<close>;
  \<^item> \<open>AtTest\<close>: the test \<open>err != nil\<close>; when it fails the task ends with its deferred
    closes, the reader's first;
  \<^item> \<open>AtBody\<close>: the body of the \<open>if\<close>: unless \<open>willClose\<close> is set, \<open>err.Error()\<close> is
    logged, which panics when \<open>err\<close> is \<open>nil\<close> by now; then the three closes, the write
    of \<open>isClosed\<close> and the deferred closes.
  A panic is the result \<open>Inl\<close>: it ends the program.
\<close>

datatype pc = AtCopy | AtTest | AtBody | Finished

type_synonym shared = "SshTunnel \<times> world \<times> error option"

definition deferredCloses :: "conn \<Rightarrow> conn \<Rightarrow> world \<Rightarrow> world" where
  "deferredCloses writer reader w = snd (Close writer (snd (Close reader w)))"

fun forwarderStep ::
  "conn \<Rightarrow> conn \<Rightarrow> conn \<Rightarrow> conn \<Rightarrow> conn \<Rightarrow> error option \<Rightarrow> pc \<Rightarrow> shared \<Rightarrow> error + (pc \<times> shared)" where
  "forwarderStep localConn remoteConn serverConn writer reader copyRes AtCopy (s, w, err) =
     Inr (AtTest, s, w, copyRes)"
| "forwarderStep localConn remoteConn serverConn writer reader copyRes AtTest (s, w, err) =
     (case err of
        None \<Rightarrow> Inr (Finished, s, deferredCloses writer reader w, err)
      | Some e \<Rightarrow> Inr (AtBody, s, w, err))"
| "forwarderStep localConn remoteConn serverConn writer reader copyRes AtBody (s, w, err) =
     (case (if \<not> willClose s
            then (case err of
                    None \<Rightarrow> Inl (Error ''runtime error: invalid memory address or nil pointer dereference'')
                  | Some e \<Rightarrow>
                      Inr (logInfo (''[!] I/O copy error when forwarding through tunnel: '' @ errorMsg e) w))
            else Inr w) of
        Inl panic \<Rightarrow> Inl panic
      | Inr wa \<Rightarrow>
          (let wb = snd (Close localConn wa);
               wc = snd (Close remoteConn wb);
               wd = snd (Close serverConn wc)
           in Inr (Finished, s\<lparr>isClosed := True\<rparr>,
                   deferredCloses writer reader (emit (SetIsClosed True) wd), err)))"
| "forwarderStep localConn remoteConn serverConn writer reader copyRes Finished sh =
     Inr (Finished, sh)"

text \<open>
  One call of \<open>forwarderFunc\<close> run from its start to its end with no step of the other
  task in between.
\<close>

definition forwarderFunc ::
  "conn \<Rightarrow> conn \<Rightarrow> conn \<Rightarrow> conn \<Rightarrow> conn \<Rightarrow> error option \<Rightarrow> shared \<Rightarrow> error + shared" where
  "forwarderFunc localConn remoteConn serverConn writer reader copyRes sh =
     (case forwarderStep localConn remoteConn serverConn writer reader copyRes AtCopy sh of
        Inl panic \<Rightarrow> Inl panic
      | Inr (pc1, sh1) \<Rightarrow>
          (case forwarderStep localConn remoteConn serverConn writer reader copyRes pc1 sh1 of
             Inl panic \<Rightarrow> Inl panic
           | Inr (pc2, sh2) \<Rightarrow>
               (case forwarderStep localConn remoteConn serverConn writer reader copyRes pc2 sh2 of
                  Inl panic \<Rightarrow> Inl panic
                | Inr (pc3, sh3) \<Rightarrow> Inr sh3)))"

text \<open>
  The two tasks of one pipeline: \<open>First\<close> is \<open>go forwarderFunc(localConn, remoteConn)\<close>,
  \<open>Second\<close> is \<open>go forwarderFunc(remoteConn, localConn)\<close>. A schedule names the task
  that takes the next step; \<open>copyRes1\<close> and \<open>copyRes2\<close> are what the two calls of
  \<open>io.Copy\<close> return.
\<close>

datatype task = First | Second

fun runTasks ::
  "conn \<Rightarrow> conn \<Rightarrow> conn \<Rightarrow> error option \<Rightarrow> error option \<Rightarrow> task list
     \<Rightarrow> pc \<times> pc \<times> shared \<Rightarrow> error + (pc \<times> pc \<times> shared)" where
  "runTasks localConn remoteConn serverConn copyRes1 copyRes2 [] st = Inr st"
| "runTasks localConn remoteConn serverConn copyRes1 copyRes2 (First # sched) (pc1, pc2, sh) =
     (case forwarderStep localConn remoteConn serverConn localConn remoteConn copyRes1 pc1 sh of
        Inl panic \<Rightarrow> Inl panic
      | Inr (pc1', sh') \<Rightarrow>
          runTasks localConn remoteConn serverConn copyRes1 copyRes2 sched (pc1', pc2, sh'))"
| "runTasks localConn remoteConn serverConn copyRes1 copyRes2 (Second # sched) (pc1, pc2, sh) =
     (case forwarderStep localConn remoteConn serverConn remoteConn localConn copyRes2 pc2 sh of
        Inl panic \<Rightarrow> Inl panic
      | Inr (pc2', sh') \<Rightarrow>
          runTasks localConn remoteConn serverConn copyRes1 copyRes2 sched (pc1, pc2', sh'))"

text \<open>
  \<open>forwardConnection\<close>, up to the start of the two copy tasks. \<open>sshDialRes\<close> is the
  outcome of \<open>ssh.Dial\<close>, \<open>remoteDialRes\<close> that of \<open>serverConn.Dial\<close>.
\<close>

definition connectToServerSsh :: "(error + conn) \<Rightarrow> SshTunnel \<times> world \<Rightarrow> (error + conn) \<times> world" where
  "connectToServerSsh sshDialRes sw =
     (case sw of (s, w) \<Rightarrow> (sshDialRes, emit (SshDial (serverTunnelEndpoint s)) w))"

definition forwardConnection ::
  "(error + conn) \<Rightarrow> (error + conn) \<Rightarrow> conn \<Rightarrow> SshTunnel \<times> world \<Rightarrow> SshTunnel \<times> world" where
  "forwardConnection sshDialRes remoteDialRes localConn sw =
     (case sw of (s, w) \<Rightarrow>
        (let w1 = logInfo ''[*] try to connect to ssh server''
                    (logInfo ''[*] Forwarding connection to server'' w)
         in case connectToServerSsh sshDialRes (s, w1) of
              (Inl err, w2) \<Rightarrow>
                (s, snd (Close localConn
                      (logInfo (''[!] Error connecting to server SSH endpoint: '' @ errorMsg err) w2)))
            | (Inr serverConn, w2) \<Rightarrow>
                (let s1 = s\<lparr>sshConns := sshConns s @ [serverConn]\<rparr>;
                     w3 = emit (ClientDial serverConn (remoteEndpoint s1))
                            (logInfo ''[*] try to connect to final endpoint by ssh tunnel'' w2)
                 in case remoteDialRes of
                      Inl err \<Rightarrow>
                        (s1, snd (Close serverConn (snd (Close localConn
                               (logInfo (''[!] Error connecting to remote endpoint: '' @ errorMsg err) w3)))))
                    | Inr remoteConn \<Rightarrow>
                        (s1\<lparr>remoteConns := remoteConns s1 @ [remoteConn]\<rparr>,
                         emit (GoForwarder remoteConn localConn)
                           (emit (GoForwarder localConn remoteConn)
                              (logInfo ''[*] Opened remote connection through tunnel, start forward traffic'' w3))))))"

subsection \<open>Stop\<close>

fun closeEach :: "conn list \<Rightarrow> world \<Rightarrow> world" where
  "closeEach [] w = w"
| "closeEach (c # cs) w = closeEach cs (snd (Close c w))"

definition Stop :: "SshTunnel \<times> world \<Rightarrow> SshTunnel \<times> world" where
  "Stop sw =
     (case sw of (s, w) \<Rightarrow>
        (let w1 = logInfo ''close conns established by tunnl'' w;
             s1 = s\<lparr>willClose := True\<rparr>;
             w2 = emit (SetWillClose True) w1;
             w3 = closeEach (localConns s1) w2;
             w4 = closeEach (sshConns s1) w3;
             w5 = closeEach (remoteConns s1) w4
         in (s1\<lparr>isClosed := True\<rparr>, emit (SetIsClosed True) w5)))"

section \<open>Fast start\<close>

text \<open>
  \<open>FastStartTunnel\<close> starts \<open>Start\<close> as a task and waits on the readiness channel.
  \<open>recv\<close> is the receive: the first value sent, \<open>None\<close> when nothing is ever sent (the
  caller then waits for ever). The value received is dropped, as in the source. The
  handle returned is the engine as it stands once the listener waits for its first
  connection (or \<open>Start\<close> has returned).
\<close>

fun recv :: "event list \<Rightarrow> bool option" where
  "recv [] = None"
| "recv (ChanSend b # es) = Some b"
| "recv (e # es) = recv es"

definition FastStartTunnel ::
  "(string \<rightharpoonup> (TunnelConfig \<Rightarrow> error + SshTunnel)) \<Rightarrow> (error + conn) \<Rightarrow> TunnelConfig \<Rightarrow> world
     \<Rightarrow> (error + (SshTunnel \<times> world)) option" where
  "FastStartTunnel factories listenRes tunnelConfig w =
     (case factories (Protocol tunnelConfig) of
        None \<Rightarrow> Some (Inl (Error (''not supported tunnel protocol: '' @ Protocol tunnelConfig)))
      | Some tunnelFactoryFunc \<Rightarrow>
          (case tunnelFactoryFunc tunnelConfig of
             Inl err \<Rightarrow> Some (Inl (Error (''create tunnel instance failed, err: '' @ errorMsg err)))
           | Inr tunnelInstance \<Rightarrow>
               (case Start listenRes [] (tunnelInstance, w) of
                  (st, s', w') \<Rightarrow>
                    (case recv (drop (length (trace w)) (trace w')) of
                       None \<Rightarrow> None
                     | Some ready \<Rightarrow> Some (Inr (s', w'))))))"

text \<open>The configuration of the repository's example program.\<close>

definition exampleConfig :: TunnelConfig where
  "exampleConfig =
     \<lparr> Protocol = ''SSH'', TunnelEndpoint = ''10.50.122.50:22'',
       Username = ''root'', Password = ''dbapp#2023'',
       RemoteAddr = ''192.168.1.111'', RemotePort = 80,
       TunneledProtocol = ''http'' \<rparr>"

text \<open>A configuration whose SSH server is the final remote host.\<close>

definition sameHostConfig :: TunnelConfig where
  "sameHostConfig =
     \<lparr> Protocol = ''SSH'', TunnelEndpoint = ''192.168.1.111:22'',
       Username = ''root'', Password = ''pw'',
       RemoteAddr = ''192.168.1.111'', RemotePort = 8080,
       TunneledProtocol = ''http'' \<rparr>"

definition emptyWorld :: world where
  "emptyWorld = \<lparr> closed = {}, trace = [] \<rparr>"

section \<open>Facts about the string helpers\<close>

lemma isPrefix_set: "isPrefix sep s \<Longrightarrow> set sep \<subseteq> set s"
  by (induction sep s rule: isPrefix.induct) auto

lemma Index_absent:
  assumes "c \<in> set sep" and "c \<notin> set s"
  shows "Index s sep = None"
  using assms(2)
proof (induction s)
  case Nil
  from assms(1) show ?case by auto
next
  case (Cons x xs)
  from assms(1) Cons.prems have "\<not> isPrefix sep (x # xs)"
    using isPrefix_set by blast
  with Cons show ?case by simp
qed

lemma Split_absent:
  assumes "c \<in> set sep" and "c \<notin> set s"
  shows "Split s sep = [s]"
  using Index_absent [OF assms] by (simp add: Split.simps)

lemma isPrefix_scheme_append:
  assumes "\<not> isPrefix ''://'' (x # xs)"
  shows "\<not> isPrefix ''://'' (x # xs @ ''://'' @ r)"
proof (cases xs)
  case Nil
  then show ?thesis by simp
next
  case (Cons y ys)
  with assms show ?thesis by (cases ys) auto
qed

lemma Index_scheme:
  assumes "Index p ''://'' = None"
  shows "Index (p @ ''://'' @ r) ''://'' = Some (length p)"
  using assms
proof (induction p)
  case Nil
  show ?case by simp
next
  case (Cons x xs)
  from Cons.prems have np: "\<not> isPrefix ''://'' (x # xs)" and rest: "Index xs ''://'' = None"
    by (auto split: if_splits option.splits)
  from np have "\<not> isPrefix ''://'' (x # xs @ ''://'' @ r)"
    by (rule isPrefix_scheme_append)
  moreover from rest have "Index (xs @ ''://'' @ r) ''://'' = Some (length xs)"
    by (rule Cons.IH)
  ultimately show ?case
    using Index.simps(2) [of x "xs @ ''://'' @ r" "''://''"] by simp
qed

lemma Split_scheme:
  assumes "Index p ''://'' = None"
  shows "Split (p @ ''://'' @ r) ''://'' = p # Split r ''://''"
  using Index_scheme [OF assms, of r] by (simp add: Split.simps)

lemma Atoi_80: "Atoi ''80'' = Inr 80"
  by (simp add: Atoi_def isDigit_def digitVal_def)

lemma Atoi_443: "Atoi ''443'' = Inr 443"
  by (simp add: Atoi_def isDigit_def digitVal_def)

lemma getTunneled_bare:
  "CHR '':'' \<notin> set host \<Longrightarrow> getTunneledProtocolAndRemoteAddr host = (''http'', host)"
  by (simp add: getTunneledProtocolAndRemoteAddr_def Split_absent [of "CHR '':''"])

lemma getTunneled_scheme:
  assumes "Index p ''://'' = None" and "CHR '':'' \<notin> set host"
  shows "getTunneledProtocolAndRemoteAddr (p @ ''://'' @ host) = (p, host)"
proof -
  have "Split host ''://'' = [host]"
    using assms(2) by (simp add: Split_absent [of "CHR '':''"])
  with Split_scheme [OF assms(1), of host]
  have "Split (p @ ''://'' @ host) ''://'' = [p, host]" by simp
  then show ?thesis
    unfolding getTunneledProtocolAndRemoteAddr_def by simp
qed

lemma splitAddrAndPort_empty_host:
  "defaultProtocolPorts p \<noteq> None \<Longrightarrow>
   splitAddrAndPort [] p = Inl (Error ''empty address/hostname provided.'')"
  by (auto simp add: splitAddrAndPort_def Split.simps)

lemma splitAddrAndPort_http:
  "CHR '':'' \<notin> set host \<Longrightarrow> host \<noteq> [] \<Longrightarrow> splitAddrAndPort host ''http'' = Inr (host, 80)"
  by (simp add: splitAddrAndPort_def Split_absent [of "CHR '':''"] defaultProtocolPorts_def Atoi_80)

lemma splitAddrAndPort_https:
  "CHR '':'' \<notin> set host \<Longrightarrow> host \<noteq> [] \<Longrightarrow> splitAddrAndPort host ''https'' = Inr (host, 443)"
  by (simp add: splitAddrAndPort_def Split_absent [of "CHR '':''"] defaultProtocolPorts_def Atoi_443)

lemma splitAddrAndPort_other:
  "CHR '':'' \<notin> set host \<Longrightarrow> p \<noteq> ''http'' \<Longrightarrow> p \<noteq> ''https'' \<Longrightarrow>
   splitAddrAndPort host p = Inl (Error (''could not get default port for protocol '' @ p))"
  by (simp add: splitAddrAndPort_def Split_absent [of "CHR '':''"] defaultProtocolPorts_def)

section \<open>Facts about closing a list of handles\<close>

lemma trace_closeEach: "trace (closeEach cs w) = trace w @ map ConnClose cs"
  by (induction cs arbitrary: w) (simp_all add: Close_def emit_def)

lemma closed_closeEach: "closed (closeEach cs w) = closed w \<union> set cs"
  by (induction cs arbitrary: w) (simp_all add: Close_def emit_def)

section \<open>A copy task that runs alone\<close>

text \<open>
  When no step of the other task falls between the steps of a copy task, an I/O error
  is handled as intended: it is logged unless \<open>willClose\<close> is set, the three handles
  are closed and \<open>isClosed\<close> is set.
\<close>

lemma forwarderFunc_alone:
  "forwarderFunc l r sv wr rd (Some e) (s, w, err0) =
     Inr (s\<lparr>isClosed := True\<rparr>,
          w\<lparr>closed := insert wr (insert rd (insert sv (insert r (insert l (closed w))))),
            trace := trace w
              @ (if willClose s then []
                 else [LogInfo (''[!] I/O copy error when forwarding through tunnel: '' @ errorMsg e)])
              @ [ConnClose l, ConnClose r, ConnClose sv, SetIsClosed True, ConnClose rd, ConnClose wr]\<rparr>,
          Some e)"
  by (simp add: forwarderFunc_def deferredCloses_def Close_def emit_def logInfo_def)

text \<open>
  When the other task stores its \<open>nil\<close> after the test and before the log line reads
  \<open>err\<close>, the call \<open>err.Error()\<close> panics.
\<close>

lemma forwarderFunc_shared_err_panic:
  "\<not> willClose s \<Longrightarrow>
   runTasks l r sv (Some e) None [First, First, Second, First] (AtCopy, AtCopy, s, w, None) =
     Inl (Error ''runtime error: invalid memory address or nil pointer dereference'')"
  by simp

section \<open>Evaluating the construction\<close>

lemmas eval_defs =
  SshTunnelFactory_def getSSHServerAddrAndPort_def Atoi_def isDigit_def digitVal_def
  splitAddrAndPort_def Split.simps defaultProtocolPorts_def getRandomListeningPort_def
  minLocalPort_def maxLocalPort_def getRelativeRemoteAddr_def Sprintf_d_def natToDec.simps
  digitChar_def

lemma factory_example:
  "SshTunnelFactory (\<lambda>n. 7) exampleConfig =
     Inr \<lparr> name = ''SSH'', sshUsername = ''root'', sshPassword = ''dbapp#2023'',
           tunneledProtocol = ''http'', localTunnelEndpoint = ''localhost:50007'',
           serverTunnelEndpoint = ''10.50.122.50:22'', remoteEndpoint = ''192.168.1.111:80'',
           config = \<lparr> User = ''root'', AuthPassword = ''dbapp#2023'', InsecureIgnoreHostKey = True \<rparr>,
           localConns = [], sshConns = [], remoteConns = [],
           willClose = False, isClosed = False \<rparr>"
  by (simp add: eval_defs exampleConfig_def)

section \<open>The claims\<close>

text \<open>
  C1. The claim: whenever the factory lookup and the construction succeed,
  \<open>FastStartTunnel\<close> waits for the readiness signal and returns the handle, and when the
  signal is \<open>false\<close> (the bind failed) it returns the bind error. The code receives the
  signal and drops its value. For the example configuration, with a local port that is
  already bound, \<open>Start\<close> sends \<open>false\<close> and returns, and \<open>FastStartTunnel\<close> still
  returns the handle with a nil error: the engine it hands back is not listening.
\<close>

theorem FastStartTunnel_bind_failure:
  "FastStartTunnel (CommunicationTunnelFactories (\<lambda>n. 7))
      (Inl (Error ''listen tcp 127.0.0.1:50007: bind: address already in use''))
      exampleConfig emptyWorld =
   Some (Inr
     (\<lparr> name = ''SSH'', sshUsername = ''root'', sshPassword = ''dbapp#2023'',
        tunneledProtocol = ''http'', localTunnelEndpoint = ''localhost:50007'',
        serverTunnelEndpoint = ''10.50.122.50:22'', remoteEndpoint = ''192.168.1.111:80'',
        config = \<lparr> User = ''root'', AuthPassword = ''dbapp#2023'', InsecureIgnoreHostKey = True \<rparr>,
        localConns = [], sshConns = [], remoteConns = [],
        willClose = False, isClosed = False \<rparr>,
      \<lparr> closed = {},
        trace =
          [LogInfo ''Starting local tunnel endpoint at localhost:50007'',
           LogInfo ''Setting server tunnel endpoint at 10.50.122.50:22'',
           LogInfo ''Setting remote endpoint at 192.168.1.111:80'',
           NetListen ''localhost:50007'',
           LogInfo ''[!] Error setting SSH tunnel listener: listen tcp 127.0.0.1:50007: bind: address already in use'',
           ChanSend False] \<rparr>))"
proof -
  have p: "Protocol exampleConfig = ''SSH''"
    by (simp add: exampleConfig_def)
  show ?thesis
    by (simp add: FastStartTunnel_def CommunicationTunnelFactories_def p factory_example
          Start_def emptyWorld_def emit_def logInfo_def)
qed

text \<open>
  C2. The claim: whenever a copy task ends with an I/O error, the error is logged exactly
  when \<open>willClose\<close> is false, and either way the local socket, the remote stream and
  the SSH session are closed and \<open>isClosed\<close> is set. The closure attempts exactly this,
  but it tests the variable \<open>err\<close> that the other copy task of the pipeline writes too.
  When the first task's copy fails with \<open>e\<close>, the second task's copy ends without an
  error, and the second task stores its \<open>nil\<close> between the first task's store and its
  test, the first task finds \<open>err\<close> nil: nothing is logged, the SSH session is not
  closed and the engine (with \<open>isClosed\<close>) is left as it was; only the deferred closes
  of the two sockets run.
\<close>

theorem forwarderFunc_shared_err_lost:
  "runTasks l r sv (Some e) None [First, Second, First, Second] (AtCopy, AtCopy, s, w, None) =
     Inr (Finished, Finished, s,
          w\<lparr>closed := insert r (insert l (closed w)),
            trace := trace w @ [ConnClose r, ConnClose l, ConnClose l, ConnClose r]\<rparr>,
          None)"
  by (simp add: deferredCloses_def Close_def emit_def insert_commute)

text \<open>
  C3. \<open>Stop\<close> writes \<open>willClose\<close> before it closes anything, then closes every tracked
  local socket, every tracked SSH session and every tracked remote stream, in that
  order and whatever was closed before, and writes \<open>isClosed\<close> last.
\<close>

theorem Stop_order:
  "trace (snd (Stop (s, w))) =
     trace w @ [LogInfo ''close conns established by tunnl'', SetWillClose True]
       @ map ConnClose (localConns s) @ map ConnClose (sshConns s) @ map ConnClose (remoteConns s)
       @ [SetIsClosed True]
   \<and> willClose (fst (Stop (s, w))) \<and> isClosed (fst (Stop (s, w)))
   \<and> closed (snd (Stop (s, w))) =
       closed w \<union> set (localConns s) \<union> set (sshConns s) \<union> set (remoteConns s)"
  by (simp add: Stop_def Let_def trace_closeEach closed_closeEach emit_def logInfo_def)

text \<open>
  C4. \<open>Stop\<close> is idempotent: it has no failing outcome (a close of a closed handle
  returns an error value that \<open>Stop\<close> drops), and a second call leaves the engine (both
  flags and the three collections, with every other field) and the set of closed
  handles as the first call left them.
\<close>

theorem Stop_idempotent:
  "fst (Stop (Stop (s, w))) = fst (Stop (s, w))
   \<and> closed (snd (Stop (Stop (s, w)))) = closed (snd (Stop (s, w)))"
  by (auto simp add: Stop_def Let_def trace_closeEach closed_closeEach emit_def logInfo_def)

text \<open>
  C5. When the bind of the local listener fails, \<open>Start\<close> sends \<open>false\<close> on the
  readiness channel and returns: whatever connections are waiting, none is accepted, no
  pipeline is started and the engine, with its three collections, is unchanged.
\<close>

theorem Start_bind_failure:
  "Start (Inl err) accepts (s, w) =
     (Returned, s,
      w\<lparr>trace := trace w @
          [LogInfo (''Starting local tunnel endpoint at '' @ localTunnelEndpoint s),
           LogInfo (''Setting server tunnel endpoint at '' @ serverTunnelEndpoint s),
           LogInfo (''Setting remote endpoint at '' @ remoteEndpoint s),
           NetListen (localTunnelEndpoint s),
           LogInfo (''[!] Error setting SSH tunnel listener: '' @ errorMsg err),
           ChanSend False]\<rparr>)"
  by (simp add: Start_def Let_def emit_def logInfo_def)

text \<open>
  C6. The claim: an endpoint string with no protocol prefix and no port suffix is
  resolved by \<open>getEndpointInfo\<close> with the port of HTTP, 80. In \<open>getEndpointInfo\<close> the
  protocol of such a string is the empty string, which has no entry in the table of
  default ports, so the function returns the error of a missing default port. (The
  default of HTTP is what \<open>getTunneledProtocolAndRemoteAddr\<close> does.)
\<close>

theorem getEndpointInfo_bare_fails:
  assumes "CHR '':'' \<notin> set endpointAddr"
  shows "getEndpointInfo endpointAddr = Inl (Error ''could not get default port for protocol '')"
  using assms
  by (simp add: getEndpointInfo_def Split_absent [of "CHR '':''"] defaultProtocolPorts_def)

theorem getEndpointInfo_bare_fails_witness:
  "CHR '':'' \<notin> set ''example.com''
   \<and> getEndpointInfo ''example.com'' = Inl (Error ''could not get default port for protocol '')"
proof -
  have h: "CHR '':'' \<notin> set ''example.com''" by simp
  from h getEndpointInfo_bare_fails [OF h] show ?thesis by simp
qed

theorem getEndpointInfo_bare_counterexample:
  "getEndpointInfo ''192.168.10.1'' = Inl (Error ''could not get default port for protocol '')"
  by (simp add: getEndpointInfo_def Split.simps defaultProtocolPorts_def)

text \<open>
  C7. The claim: for every destination that omits a port, \<open>BuildTunnelConfig\<close> gives
  port 80 when the protocol is \<open>http\<close> or absent, 443 when it is \<open>https\<close>, and an error
  for any other protocol. The destination is \<open>host\<close> or \<open>p://host\<close>, where \<open>host\<close> has
  no colon (no port) and the prefix \<open>p\<close> is the text before the first \<open>://\<close>. The check
  of the host comes after the lookup of the default port: with the prefix \<open>http\<close>,
  \<open>https\<close> or none, an empty host is the error of an empty address, and a non-empty host
  gets port 80, 80 and 443; any other prefix is the error of a missing default port,
  whatever the host.
\<close>

theorem BuildTunnelConfig_default_port:
  assumes "CHR '':'' \<notin> set host" and "Index p ''://'' = None"
  shows "BuildTunnelConfig protocol tunnelEndpoint host user password =
           (if host = [] then Inl (Error ''empty address/hostname provided.'')
            else Inr \<lparr> Protocol = protocol, TunnelEndpoint = tunnelEndpoint,
                       Username = user, Password = password,
                       RemoteAddr = host, RemotePort = 80, TunneledProtocol = ''http'' \<rparr>)
       \<and> BuildTunnelConfig protocol tunnelEndpoint (''http'' @ ''://'' @ host) user password =
           (if host = [] then Inl (Error ''empty address/hostname provided.'')
            else Inr \<lparr> Protocol = protocol, TunnelEndpoint = tunnelEndpoint,
                       Username = user, Password = password,
                       RemoteAddr = host, RemotePort = 80, TunneledProtocol = ''http'' \<rparr>)
       \<and> BuildTunnelConfig protocol tunnelEndpoint (''https'' @ ''://'' @ host) user password =
           (if host = [] then Inl (Error ''empty address/hostname provided.'')
            else Inr \<lparr> Protocol = protocol, TunnelEndpoint = tunnelEndpoint,
                       Username = user, Password = password,
                       RemoteAddr = host, RemotePort = 443, TunneledProtocol = ''https'' \<rparr>)
       \<and> (p \<noteq> ''http'' \<longrightarrow> p \<noteq> ''https'' \<longrightarrow>
            BuildTunnelConfig protocol tunnelEndpoint (p @ ''://'' @ host) user password =
              Inl (Error (''could not get default port for protocol '' @ p)))"
proof -
  have bare: "getTunneledProtocolAndRemoteAddr host = (''http'', host)"
    using assms(1) by (rule getTunneled_bare)
  have http: "getTunneledProtocolAndRemoteAddr (''http'' @ ''://'' @ host) = (''http'', host)"
    using assms(1) by (intro getTunneled_scheme) simp_all
  have https: "getTunneledProtocolAndRemoteAddr (''https'' @ ''://'' @ host) = (''https'', host)"
    using assms(1) by (intro getTunneled_scheme) simp_all
  have other: "getTunneledProtocolAndRemoteAddr (p @ ''://'' @ host) = (p, host)"
    using assms(2) assms(1) by (rule getTunneled_scheme)
  have e1: "splitAddrAndPort [] ''http'' = Inl (Error ''empty address/hostname provided.'')"
    by (rule splitAddrAndPort_empty_host) (simp add: defaultProtocolPorts_def)
  have e2: "splitAddrAndPort [] ''https'' = Inl (Error ''empty address/hostname provided.'')"
    by (rule splitAddrAndPort_empty_host) (simp add: defaultProtocolPorts_def)
  show ?thesis
    unfolding BuildTunnelConfig_def bare http https other
    using assms(1)
    by (simp add: splitAddrAndPort_http splitAddrAndPort_https splitAddrAndPort_other e1 e2)
qed

theorem BuildTunnelConfig_default_port_witness:
  "CHR '':'' \<notin> set ''192.168.1.111'' \<and> Index ''ftp'' ''://'' = None
   \<and> ''ftp'' \<noteq> ''http'' \<and> ''ftp'' \<noteq> ''https''
   \<and> BuildTunnelConfig ''SSH'' ''10.50.122.50:22'' ''192.168.1.111'' ''root'' ''pw'' =
       Inr \<lparr> Protocol = ''SSH'', TunnelEndpoint = ''10.50.122.50:22'',
             Username = ''root'', Password = ''pw'',
             RemoteAddr = ''192.168.1.111'', RemotePort = 80, TunneledProtocol = ''http'' \<rparr>
   \<and> BuildTunnelConfig ''SSH'' ''10.50.122.50:22'' ''http://192.168.1.111'' ''root'' ''pw'' =
       Inr \<lparr> Protocol = ''SSH'', TunnelEndpoint = ''10.50.122.50:22'',
             Username = ''root'', Password = ''pw'',
             RemoteAddr = ''192.168.1.111'', RemotePort = 80, TunneledProtocol = ''http'' \<rparr>
   \<and> BuildTunnelConfig ''SSH'' ''10.50.122.50:22'' ''https://192.168.1.111'' ''root'' ''pw'' =
       Inr \<lparr> Protocol = ''SSH'', TunnelEndpoint = ''10.50.122.50:22'',
             Username = ''root'', Password = ''pw'',
             RemoteAddr = ''192.168.1.111'', RemotePort = 443, TunneledProtocol = ''https'' \<rparr>
   \<and> BuildTunnelConfig ''SSH'' ''10.50.122.50:22'' ''ftp://192.168.1.111'' ''root'' ''pw'' =
       Inl (Error ''could not get default port for protocol ftp'')"
proof -
  have h1: "CHR '':'' \<notin> set ''192.168.1.111''" by simp
  have h2: "Index ''ftp'' ''://'' = None" by simp
  from BuildTunnelConfig_default_port [OF h1 h2, of "''SSH''" "''10.50.122.50:22''" "''root''" "''pw''"] h2
  show ?thesis by simp
qed

theorem BuildTunnelConfig_empty_host_counterexample:
  "BuildTunnelConfig ''SSH'' ''10.50.122.50:22'' [] ''root'' ''pw'' =
     Inl (Error ''empty address/hostname provided.'')
   \<and> BuildTunnelConfig ''SSH'' ''10.50.122.50:22'' ''http://'' ''root'' ''pw'' =
     Inl (Error ''empty address/hostname provided.'')
   \<and> BuildTunnelConfig ''SSH'' ''10.50.122.50:22'' ''https://'' ''root'' ''pw'' =
     Inl (Error ''empty address/hostname provided.'')"
  by (simp add: BuildTunnelConfig_def getTunneledProtocolAndRemoteAddr_def splitAddrAndPort_def
        Split.simps defaultProtocolPorts_def)

text \<open>
  C8. The local port of a constructed engine is \<open>rand.Intn(maxLocalPort - minLocalPort)
  + minLocalPort\<close>; with \<open>rand.Intn(n)\<close> in \<open>[0, n)\<close> it lies in \<open>[50000, 65000)\<close>, and it
  is the port of the engine's local endpoint.
\<close>

theorem local_port_in_range:
  assumes "\<forall>n>0. 0 \<le> intn n \<and> intn n < n"
      and "SshTunnelFactory intn cfg = Inr t"
  shows "localTunnelEndpoint t = ''localhost:'' @ Sprintf_d (getRandomListeningPort intn)
         \<and> 50000 \<le> getRandomListeningPort intn \<and> getRandomListeningPort intn < 65000"
proof -
  have "0 \<le> intn 15000 \<and> intn 15000 < 15000"
    using assms(1) by simp
  then have range: "50000 \<le> getRandomListeningPort intn \<and> getRandomListeningPort intn < 65000"
    by (simp add: getRandomListeningPort_def minLocalPort_def maxLocalPort_def)
  from assms(2) have "localTunnelEndpoint t = ''localhost:'' @ Sprintf_d (getRandomListeningPort intn)"
    by (auto simp add: SshTunnelFactory_def Let_def split: sum.splits)
  with range show ?thesis by simp
qed

theorem local_port_in_range_witness:
  "(\<exists>t. SshTunnelFactory (\<lambda>n. 12345 mod n) exampleConfig = Inr t
          \<and> localTunnelEndpoint t = ''localhost:62345'')
   \<and> 50000 \<le> getRandomListeningPort (\<lambda>n. 12345 mod n)
   \<and> getRandomListeningPort (\<lambda>n. 12345 mod n) < 65000"
proof -
  have h1: "\<forall>n>0. 0 \<le> (\<lambda>n::int. 12345 mod n) n \<and> (\<lambda>n::int. 12345 mod n) n < n"
    by simp
  obtain t where h2: "SshTunnelFactory (\<lambda>n. 12345 mod n) exampleConfig = Inr t"
    by (simp add: eval_defs exampleConfig_def)
  have "Sprintf_d (getRandomListeningPort (\<lambda>n. 12345 mod n)) = ''62345''"
    by (simp add: eval_defs)
  with local_port_in_range [OF h1 h2] h2 show ?thesis
    by simp
qed

text \<open>
  C9. When the address of the SSH server is the same string as the final remote
  address, the engine is built with \<open>localhost\<close> as the final host: its remote endpoint is
  \<open>localhost:RemotePort\<close>, \<open>GetRemoteEndpoint\<close> shows it, and it is the address every
  pipeline dials through its SSH session.
\<close>

theorem remote_endpoint_localhost:
  assumes "getSSHServerAddrAndPort cfg = Inr (sshServerAddr, sshPort)"
      and "sshServerAddr = RemoteAddr cfg"
  shows "\<exists>t. SshTunnelFactory intn cfg = Inr t
           \<and> remoteEndpoint t = ''localhost:'' @ Sprintf_d (RemotePort cfg)
           \<and> GetRemoteEndpoint t = TunneledProtocol cfg @ ''://'' @ ''localhost:'' @ Sprintf_d (RemotePort cfg)
           \<and> (\<forall>serverConn remoteDialRes localConn w.
                 ClientDial serverConn (''localhost:'' @ Sprintf_d (RemotePort cfg))
                   \<in> set (trace (snd (forwardConnection (Inr serverConn) remoteDialRes localConn (t, w)))))"
  using assms
  by (auto simp add: SshTunnelFactory_def Let_def getRelativeRemoteAddr_def GetRemoteEndpoint_def
        forwardConnection_def connectToServerSsh_def emit_def logInfo_def Close_def
        split: sum.splits)

theorem remote_endpoint_localhost_witness:
  "getSSHServerAddrAndPort sameHostConfig = Inr (''192.168.1.111'', 22)
   \<and> ''192.168.1.111'' = RemoteAddr sameHostConfig
   \<and> (\<exists>t. SshTunnelFactory (\<lambda>n. 7) sameHostConfig = Inr t
          \<and> remoteEndpoint t = ''localhost:8080''
          \<and> GetRemoteEndpoint t = ''http://localhost:8080'')"
proof -
  have h1: "getSSHServerAddrAndPort sameHostConfig = Inr (''192.168.1.111'', 22)"
    by (simp add: eval_defs sameHostConfig_def)
  have h2: "''192.168.1.111'' = RemoteAddr sameHostConfig"
    by (simp add: sameHostConfig_def)
  have h3: "Sprintf_d (RemotePort sameHostConfig) = ''8080''"
    by (simp add: eval_defs sameHostConfig_def)
  have h4: "TunneledProtocol sameHostConfig = ''http''"
    by (simp add: sameHostConfig_def)
  from remote_endpoint_localhost [OF h1 h2, of "\<lambda>n. 7"] h1 h2 h3 h4 show ?thesis
    by auto
qed

end
